theory Spec2Isabelle
  imports Main "HOL-Library.Sublist"
begin

section \<open>Submitting Nuke write nodes to Deadline: a model of \<open>submit_nuke_deadline.py\<close>\<close>

text \<open>
  The plugin \<open>NukeSubmitDeadline\<close> builds a Deadline job payload for a publish instance,
  resolves the files the render is expected to write, and resolves limit groups from the
  nodes of the Nuke script. The definitions below follow the Python source function by
  function. Python exceptions are values of the type \<open>exn\<close>; a function that mutates
  \<open>instance.data\<close> takes the instance data and returns the new one together with the
  exception it raised, if any (the mutation done before a raise stays).

  What the module takes from outside is an input of the model: the process environment, the
  file system's answer to \<open>os.makedirs\<close>, the platform's \<open>os.path\<close>, the nodes of the Nuke
  script, the attributes of \<open>self\<close> that the publishing framework fills in from the settings
  or that a base class provides (among them the methods \<open>get_limit_groups\<close> and
  \<open>preview_fname\<close>, which this file calls and does not define), and the results of the
  helpers imported from \<open>ayon_deadline.lib\<close>. Logging is left out. An instance is well formed:
  the entries that the plugin subscripts are there and have the type the plugin expects.

  The names bound in the module are those of its imports (\<open>os\<close>, \<open>re\<close>, \<open>dataclass\<close>, \<open>field\<close>,
  \<open>asdict\<close>, \<open>copy\<close>, \<open>pyblish\<close>, \<open>BoolDef\<close>, \<open>NumberDef\<close>, \<open>AYONPyblishPluginMixin\<close>,
  \<open>is_in_tests\<close>, \<open>get_project_settings\<close>, \<open>requests_post\<close>, \<open>get_instance_job_envs\<close>,
  \<open>get_ayon_render_job_envs\<close>), \<open>DEADLINE_SETTINGS\<close> and the class. The module also uses
  \<open>datetime\<close> (line 216), \<open>getpass\<close> (line 63) and \<open>json\<close> (line 359), which it never binds
  and which are no builtins: where such a name is evaluated the function raises
  \<open>NameError\<close>, and the model ends the function there as the run does. The other names
  that the module uses and does not bind (\<open>node\<close>, \<open>families\<close>, \<open>context\<close> in \<open>payload_submit\<close>,
  \<open>NukePluginInfo\<close>) stand behind these points and are not reached.

  \<open>_expected_files\<close> and \<open>_get_limit_groups\<close> are \<open>expected_files\<close> and \<open>get_limit_groups\<close>
  here; the method \<open>self.get_limit_groups()\<close> is \<open>self_get_limit_groups\<close>.
\<close>

subsection \<open>Exceptions\<close>

datatype oserror =
  FileExistsError | PermissionError | FileNotFoundError | NotADirectoryError | OtherOSError nat

datatype exn =
  OSError oserror
  | KeyError string
  | TypeError
  | ValueError
  | AttributeError
  | AssertionError
  | NameError string
  | UnmodelledFormat

text \<open>
  \<open>UnmodelledFormat\<close> is not a Python exception: it marks a \<open>%\<close> directive outside the
  fragment of printf-style formatting that \<open>py_format\<close> below covers (what Python does there
  is left open).
\<close>

subsection \<open>Python strings\<close>

text \<open>\<open>needle in haystack\<close> on two \<open>str\<close>: the needle occurs as a contiguous substring.\<close>

fun str_in :: "string \<Rightarrow> string \<Rightarrow> bool" where
  "str_in needle [] = (needle = [])"
| "str_in needle (c # cs) = (prefix needle (c # cs) \<or> str_in needle cs)"

text \<open>
  \<open>s.replace(old, new)\<close>: every non-overlapping occurrence of \<open>old\<close>, from the left. The
  counter of \<open>replace_from\<close> is the number of characters of a matched occurrence that are
  still to be skipped. With an empty \<open>old\<close>, Python inserts \<open>new\<close> before every character
  and at the end.
\<close>

fun replace_from :: "nat \<Rightarrow> string \<Rightarrow> string \<Rightarrow> string \<Rightarrow> string" where
  "replace_from k old new [] = []"
| "replace_from (Suc k) old new (c # cs) = replace_from k old new cs"
| "replace_from 0 old new (c # cs) =
     (if prefix old (c # cs) then new @ replace_from (length old - 1) old new cs
      else c # replace_from 0 old new cs)"

definition replace :: "string \<Rightarrow> string \<Rightarrow> string \<Rightarrow> string" where
  "replace s old new =
     (if old = [] then new @ concat (map (\<lambda>c. c # new) s) else replace_from 0 old new s)"

text \<open>\<open>s.split(sep)\<close> for a separator of one character: never empty, one more part than
  there are separators.\<close>

fun split_chr :: "char \<Rightarrow> string \<Rightarrow> string list" where
  "split_chr sep [] = [[]]"
| "split_chr sep (c # cs) =
     (let ps = split_chr sep cs in if c = sep then [] # ps else (c # hd ps) # tl ps)"

text \<open>\<open>str(n)\<close> for a natural number, and \<open>sep.join(parts)\<close>.\<close>

definition digit_char :: "nat \<Rightarrow> char" where
  "digit_char d = ''0123456789'' ! (d mod 10)"

fun str_nat :: "nat \<Rightarrow> string" where
  "str_nat n = (if n < 10 then [digit_char n] else str_nat (n div 10) @ [digit_char (n mod 10)])"

declare str_nat.simps [simp del]

fun str_join :: "string \<Rightarrow> string list \<Rightarrow> string" where
  "str_join sep [] = []"
| "str_join sep [p] = p"
| "str_join sep (p # q # ps) = p @ sep @ str_join sep (q # ps)"

definition backslash :: char where
  "backslash = CHR 0x5C"

subsection \<open>printf-style formatting of one integer: \<open>fmt % i\<close>\<close>

text \<open>
  The fragment covered: literal characters, and directives \<open>%\<close>, any number of \<open>0\<close> flags, a
  width in decimal digits, then one of the conversions \<open>d\<close>, \<open>i\<close>, \<open>u\<close> (all three print the
  integer in decimal) or \<open>%\<close> (prints a percent sign and takes no argument). As in CPython,
  the single argument \<open>i\<close> must be taken by exactly one conversion: a second conversion
  raises \<open>TypeError\<close> (not enough arguments), no conversion at all raises \<open>TypeError\<close> (not
  all arguments converted), and a format that ends inside a directive raises \<open>ValueError\<close>
  (incomplete format). Strings and integers are unbounded.
\<close>

definition is_digit :: "char \<Rightarrow> bool" where
  "is_digit c = (c \<in> set ''0123456789'')"

definition digit_val :: "char \<Rightarrow> nat" where
  "digit_val c = of_char c - 48"

text \<open>\<open>%d\<close> with a width: the sign comes first, zeros fill up between sign and digits when
  the \<open>0\<close> flag is given, spaces fill up on the left otherwise.\<close>

definition format_d :: "bool \<Rightarrow> nat \<Rightarrow> int \<Rightarrow> string" where
  "format_d zero width i =
     (let sign = (if i < 0 then ''-'' else '''');
          digs = str_nat (nat \<bar>i\<bar>);
          pad = width - (length sign + length digs)
      in if zero then sign @ replicate pad (CHR ''0'') @ digs
         else replicate pad (CHR '' '') @ sign @ digs)"

datatype fmt_state =
  Literal
  | Flags bool
  | Width bool nat

text \<open>\<open>fmt_run st used i fmt\<close>: \<open>st\<close> is the place inside a directive, \<open>used\<close> tells that the
  argument has been taken.\<close>

fun fmt_run :: "fmt_state \<Rightarrow> bool \<Rightarrow> int \<Rightarrow> string \<Rightarrow> exn + string" where
  "fmt_run Literal used i [] = (if used then Inr [] else Inl TypeError)"
| "fmt_run (Flags z) used i [] = Inl ValueError"
| "fmt_run (Width z w) used i [] = Inl ValueError"
| "fmt_run Literal used i (c # cs) =
     (if c = CHR ''%'' then fmt_run (Flags False) used i cs
      else (case fmt_run Literal used i cs of Inl e \<Rightarrow> Inl e | Inr s \<Rightarrow> Inr (c # s)))"
| "fmt_run (Flags z) used i (c # cs) =
     (if c = CHR ''0'' then fmt_run (Flags True) used i cs
      else if is_digit c then fmt_run (Width z (digit_val c)) used i cs
      else if c = CHR ''%'' then
        (case fmt_run Literal used i cs of Inl e \<Rightarrow> Inl e | Inr s \<Rightarrow> Inr (CHR ''%'' # s))
      else if c \<in> set ''diu'' then
        (if used then Inl TypeError
         else (case fmt_run Literal True i cs of Inl e \<Rightarrow> Inl e
               | Inr s \<Rightarrow> Inr (format_d z 0 i @ s)))
      else Inl UnmodelledFormat)"
| "fmt_run (Width z w) used i (c # cs) =
     (if is_digit c then fmt_run (Width z (w * 10 + digit_val c)) used i cs
      else if c = CHR ''%'' then
        (case fmt_run Literal used i cs of Inl e \<Rightarrow> Inl e | Inr s \<Rightarrow> Inr (CHR ''%'' # s))
      else if c \<in> set ''diu'' then
        (if used then Inl TypeError
         else (case fmt_run Literal True i cs of Inl e \<Rightarrow> Inl e
               | Inr s \<Rightarrow> Inr (format_d z w i @ s)))
      else Inl UnmodelledFormat)"

definition py_format :: "string \<Rightarrow> int \<Rightarrow> exn + string" where
  "py_format fmt i = fmt_run Literal False i fmt"

subsection \<open>\<open>os.path\<close>\<close>

text \<open>
  The functions of \<open>os.path\<close> that the plugin calls are those of the platform, so they are
  an input. \<open>posixpath\<close> is the instance for POSIX systems, after CPython's
  \<open>posixpath.py\<close>.
\<close>

record ospath =
  dirname :: "string \<Rightarrow> string"
  basename :: "string \<Rightarrow> string"
  join :: "string \<Rightarrow> string \<Rightarrow> string"
  normpath :: "string \<Rightarrow> string"

definition posix_basename :: "string \<Rightarrow> string" where
  "posix_basename p = rev (takeWhile (\<lambda>c. c \<noteq> CHR ''/'') (rev p))"

definition posix_dirname :: "string \<Rightarrow> string" where
  "posix_dirname p =
     (let head = rev (dropWhile (\<lambda>c. c \<noteq> CHR ''/'') (rev p))
      in if head \<noteq> [] \<and> head \<noteq> replicate (length head) (CHR ''/'')
         then rev (dropWhile (\<lambda>c. c = CHR ''/'') (rev head)) else head)"

definition posix_join :: "string \<Rightarrow> string \<Rightarrow> string" where
  "posix_join a b =
     (if prefix ''/'' b then b
      else if a = [] \<or> last a = CHR ''/'' then a @ b
      else a @ ''/'' @ b)"

fun norm_comps :: "nat \<Rightarrow> string list \<Rightarrow> string list \<Rightarrow> string list" where
  "norm_comps ini [] new_comps = new_comps"
| "norm_comps ini (part # comps) new_comps =
     (if part = '''' \<or> part = ''.'' then norm_comps ini comps new_comps
      else if part \<noteq> ''..'' \<or> (ini = 0 \<and> new_comps = [])
              \<or> (new_comps \<noteq> [] \<and> last new_comps = ''..'')
        then norm_comps ini comps (new_comps @ [part])
      else if new_comps \<noteq> [] then norm_comps ini comps (butlast new_comps)
      else norm_comps ini comps new_comps)"

definition posix_normpath :: "string \<Rightarrow> string" where
  "posix_normpath p =
     (if p = [] then ''.''
      else
        (let ini = (if prefix ''/'' p
                    then (if prefix ''//'' p \<and> \<not> prefix ''///'' p then 2 else 1)
                    else (0::nat));
             res = replicate ini (CHR ''/'')
                   @ str_join ''/'' (norm_comps ini (split_chr (CHR ''/'') p) [])
         in if res = [] then ''.'' else res))"

definition posixpath :: ospath where
  "posixpath = \<lparr> dirname = posix_dirname, basename = posix_basename,
                 join = posix_join, normpath = posix_normpath \<rparr>"

subsection \<open>Python values and dictionaries\<close>

text \<open>
  The values that settings, attribute values and a decoded JSON response hold. A \<open>dict\<close>
  keeps its insertion order, so it is an association list; \<open>dict_set\<close> is \<open>d[k] = v\<close> (an
  existing key keeps its place) and \<open>dict_update\<close> is \<open>d.update(e)\<close>.
\<close>

datatype pyval =
  PNone
  | PBool bool
  | PInt int
  | PStr string
  | PList "pyval list"
  | PDict "(string \<times> pyval) list"

fun truthy :: "pyval \<Rightarrow> bool" where
  "truthy PNone = False"
| "truthy (PBool b) = b"
| "truthy (PInt i) = (i \<noteq> 0)"
| "truthy (PStr s) = (s \<noteq> [])"
| "truthy (PList xs) = (xs \<noteq> [])"
| "truthy (PDict d) = (d \<noteq> [])"

fun dict_set :: "('k \<times> 'v) list \<Rightarrow> 'k \<Rightarrow> 'v \<Rightarrow> ('k \<times> 'v) list" where
  "dict_set [] k v = [(k, v)]"
| "dict_set ((k', v') # d) k v = (if k' = k then (k, v) # d else (k', v') # dict_set d k v)"

definition dict_update :: "('k \<times> 'v) list \<Rightarrow> ('k \<times> 'v) list \<Rightarrow> ('k \<times> 'v) list" where
  "dict_update d e = foldl (\<lambda>acc (k, v). dict_set acc k v) d e"

definition dict_get :: "('k \<times> 'v) list \<Rightarrow> 'k \<Rightarrow> 'v \<Rightarrow> 'v" where
  "dict_get d k dflt = (case map_of d k of None \<Rightarrow> dflt | Some v \<Rightarrow> v)"

text \<open>\<open>v[k]\<close> with a string key: \<open>KeyError\<close> on a dict without the key, \<open>TypeError\<close> on
  anything that is not a dict.\<close>

fun subscript :: "pyval \<Rightarrow> string \<Rightarrow> exn + pyval" where
  "subscript (PDict d) k = (case map_of d k of None \<Rightarrow> Inl (KeyError k) | Some v \<Rightarrow> Inr v)"
| "subscript v k = Inl TypeError"

definition str_int :: "int \<Rightarrow> string" where
  "str_int i = (if i < 0 then ''-'' else '''') @ str_nat (nat \<bar>i\<bar>)"

subsection \<open>Instance data\<close>

text \<open>
  The entries of \<open>instance.data\<close> that the plugin reads or writes. A representation's
  \<open>files\<close> is a list of file names for a sequence and a single name for a single file;
  \<open>tags\<close> and \<open>files\<close> may be absent (\<open>repre.get(key, [])\<close>).
\<close>

datatype repre_files = FileList "string list" | FileName string

record repre =
  repre_tags :: "string list option"
  repre_files :: "repre_files option"

record baking_script =
  bakeRenderPath :: string
  bakeScriptPath :: string
  bakeWriteNodeName :: string

text \<open>
  \<open>ctx\<close> is \<open>instance.context.data\<close>. An entry read with \<open>.get\<close> and tested for truth is a
  \<open>bool\<close> (\<open>farm\<close>, \<open>slate\<close>) or an \<open>option\<close>; \<open>bakingNukeScripts\<close> and \<open>representations\<close> are
  empty when absent; \<open>deadline_url\<close> is \<open>instance.data["deadline"]["url"]\<close>.
\<close>

record context_data =
  currentFile :: string
  comment :: "string option"
  hostVersion :: string
  deadlineUser :: "string option"

record instance_data =
  ctx :: context_data
  farm :: bool
  render_target :: string
  path :: string
  frameStartHandle :: int
  frameEndHandle :: int
  expectedFiles :: "string list option"
  representations :: "repre list"
  slate :: bool
  bakingNukeScripts :: "baking_script list"
  attributeValues :: "(string \<times> pyval) list"
  primaryPool :: pyval
  secondaryPool :: pyval
  deadline_url :: string
  deadlineSubmissionJob :: "(string \<times> pyval) list option"
  outputDir :: "string option"
  publishJobState :: "string option"
  bakingSubmissionJobs :: "pyval list option"
  productType :: string
  family :: "string option"
  families :: "string list option"

subsection \<open>\<open>_expected_files\<close>\<close>

text \<open>
  The loop over the representations: \<open>True\<close> when the method returns from inside the loop,
  that is when a representation tagged \<open>publish_on_farm\<close> holds the file. \<open>file in files\<close> is
  membership when \<open>files\<close> is a list and the substring test when it is a single name.
\<close>

fun on_farm_repre :: "string \<Rightarrow> repre list \<Rightarrow> bool" where
  "on_farm_repre file [] = False"
| "on_farm_repre file (r # rs) =
     (if ''publish_on_farm'' \<notin> set (case repre_tags r of None \<Rightarrow> [] | Some ts \<Rightarrow> ts)
      then on_farm_repre file rs
      else if (case repre_files r of None \<Rightarrow> False
               | Some (FileList fs) \<Rightarrow> file \<in> set fs
               | Some (FileName f) \<Rightarrow> str_in file f)
      then True
      else on_farm_repre file rs)"

text \<open>The hashed sequence expression: \<open>pparts[0] + "%0{}d".format(len(pparts) - 1) + pparts[-1]\<close>.\<close>

definition hash_to_padding :: "string \<Rightarrow> string" where
  "hash_to_padding file =
     (if CHR ''#'' \<in> set file
      then (let pparts = split_chr (CHR ''#'') file;
                padding = ''%0'' @ str_nat (length pparts - 1) @ ''d''
            in hd pparts @ padding @ last pparts)
      else file)"

text \<open>The loop over \<open>range(start_frame, end_frame + 1)\<close>; a raise of \<open>file % i\<close> ends it and
  keeps what was appended before.\<close>

fun append_frames ::
  "ospath \<Rightarrow> string \<Rightarrow> string \<Rightarrow> int list \<Rightarrow> string list \<Rightarrow> exn option \<times> string list" where
  "append_frames os dir file [] acc = (None, acc)"
| "append_frames os dir file (i # frames) acc =
     (case py_format file i of
        Inl e \<Rightarrow> (Some e, acc)
      | Inr name \<Rightarrow>
          append_frames os dir file frames
            (acc @ [replace (join os dir name) [backslash] ''/'']))"

definition expected_files ::
  "ospath \<Rightarrow> instance_data \<Rightarrow> string \<Rightarrow> int \<Rightarrow> int \<Rightarrow> exn option \<times> instance_data" where
  "expected_files os inst filepath start_frame end_frame =
     (if render_target inst = ''frames_farm'' then (None, inst)
      else
        (let acc0 = (case expectedFiles inst of None \<Rightarrow> [] | Some fs \<Rightarrow> fs);
             inst1 = inst\<lparr>expectedFiles := Some acc0\<rparr>;
             dir = dirname os filepath;
             file0 = basename os filepath
         in if on_farm_repre file0 (representations inst1) then (None, inst1)
            else
              (let file = hash_to_padding file0
               in if CHR ''%'' \<notin> set file
                  then (None, inst1\<lparr>expectedFiles := Some (acc0 @ [filepath])\<rparr>)
                  else
                    (let start = (if slate inst1 then start_frame - 1 else start_frame);
                         (err, acc) = append_frames os dir file [start..end_frame] acc0
                     in (err, inst1\<lparr>expectedFiles := Some acc\<rparr>)))))"

subsection \<open>\<open>_get_limit_groups\<close>\<close>

text \<open>
  A node of the script as the method sees it: \<open>node.Class()\<close> and \<open>node["disable"].value()\<close>.
  A limit group of the settings is a name and a list of node class names. The node list is
  what \<open>nuke.allNodes(recurseGroups=True)\<close> returns. The three nested loops are the three
  functions below, innermost first; \<open>captured\<close> is \<open>captured_groups\<close>.
\<close>

record node =
  node_Class :: string
  node_disable :: bool

record limit_group =
  lg_name :: string
  lg_value :: "string list"

fun scan_nodes :: "string \<Rightarrow> string \<Rightarrow> node list \<Rightarrow> string list \<Rightarrow> string list" where
  "scan_nodes name node_class [] captured = captured"
| "scan_nodes name node_class (n # ns) captured =
     (if \<not> str_in (node_Class n) node_class then scan_nodes name node_class ns captured
      else if node_disable n then scan_nodes name node_class ns captured
      else if name \<notin> set captured then scan_nodes name node_class ns (captured @ [name])
      else scan_nodes name node_class ns captured)"

fun scan_classes :: "string \<Rightarrow> string list \<Rightarrow> node list \<Rightarrow> string list \<Rightarrow> string list" where
  "scan_classes name [] nodes captured = captured"
| "scan_classes name (node_class # cls) nodes captured =
     scan_classes name cls nodes (scan_nodes name node_class nodes captured)"

fun scan_groups :: "limit_group list \<Rightarrow> node list \<Rightarrow> string list \<Rightarrow> string list" where
  "scan_groups [] nodes captured = captured"
| "scan_groups (g # gs) nodes captured =
     scan_groups gs nodes (scan_classes (lg_name g) (lg_value g) nodes captured)"

definition get_limit_groups :: "limit_group list \<Rightarrow> node list \<Rightarrow> string list" where
  "get_limit_groups limit_groups nodes = scan_groups limit_groups nodes []"

subsection \<open>The plugin object and its surroundings\<close>

text \<open>
  \<open>plugin\<close> is \<open>self\<close>: the attributes filled in from the settings, and \<open>self._comment\<close>,
  \<open>self._ver\<close> and \<open>self._deadline_user\<close>, which \<open>payload_submit\<close> reads. \<open>self_ver\<close> is the
  text that \<open>self._ver.group()\<close> gives, or \<open>None\<close> when \<open>self._ver\<close> is \<open>None\<close> (no match of the
  host version).
\<close>

record search_replace =
  sr_name :: string
  sr_value :: string

record plugin =
  priority :: pyval
  chunk_size :: pyval
  concurrent_tasks :: pyval
  department :: pyval
  group :: pyval
  use_gpu :: pyval
  workfile_dependency :: pyval
  env_allowed_keys :: "string list"
  env_search_replace_values :: "search_replace list"
  self_comment :: string
  self_ver :: "string option"
  self_deadline_user :: string

text \<open>
  \<open>world\<close> is what the module reads from outside:
  \<^item> \<open>os_path\<close>, \<open>os_environ\<close>, \<open>makedirs\<close> (\<open>None\<close> when \<open>os.makedirs\<close> returns, the exception
    otherwise), \<open>is_in_tests\<close> (the result of \<open>is_in_tests()\<close>);
  \<^item> \<open>plugin_name_setting\<close>: the \<open>plugin_name\<close> entry of the Deadline settings, if any;
  \<^item> \<open>get_instance_job_envs\<close>, \<open>get_ayon_render_job_envs\<close>: the helpers of
    \<open>ayon_deadline.lib\<close>;
  \<^item> \<open>self_get_limit_groups\<close>, \<open>preview_fname\<close>: what the methods \<open>self.get_limit_groups()\<close>
    and \<open>self.preview_fname(path)\<close> return.
\<close>

record world =
  os_path :: ospath
  os_environ :: "string \<Rightarrow> string option"
  makedirs :: "string \<Rightarrow> exn option"
  is_in_tests :: bool
  plugin_name_setting :: "string option"
  get_instance_job_envs :: "instance_data \<Rightarrow> (string \<times> string) list"
  get_ayon_render_job_envs :: "(string \<times> string) list"
  self_get_limit_groups :: "string list"
  preview_fname :: "string \<Rightarrow> string"

subsection \<open>The job environment\<close>

definition critical_keys :: "string list" where
  "critical_keys =
     [''NUKE_PATH'', ''FOUNDRY_LICENSE'', ''PHAROS_LOCATION'', ''PHAROS_NUKELIB'', ''CCCID'',
      ''NUKE_FONT_PATH'', ''OCIO'', ''PROJECT_LUT'', ''SHOT_LUT'']"

definition nuke_specific_env :: "world \<Rightarrow> plugin \<Rightarrow> (string \<times> string) list" where
  "nuke_specific_env w self =
     (let keys = (if env_allowed_keys self \<noteq> [] then critical_keys @ env_allowed_keys self
                  else critical_keys)
      in foldl (\<lambda>d key. case os_environ w key of None \<Rightarrow> d | Some v \<Rightarrow> dict_set d key v)
           [] keys)"

text \<open>The three overlays: \<open>get_instance_job_envs(instance)\<close>, updated with
  \<open>get_ayon_render_job_envs()\<close>, updated with \<open>nuke_specific_env\<close>.\<close>

definition collect_environment :: "world \<Rightarrow> plugin \<Rightarrow> instance_data \<Rightarrow> (string \<times> string) list" where
  "collect_environment w self inst =
     dict_update (dict_update (get_instance_job_envs w inst) (get_ayon_render_job_envs w))
       (nuke_specific_env w self)"

text \<open>
  The search and replace loops. The outer loop visits the entries of \<open>environment\<close>; the
  inner loop assigns \<open>environment[key] = value.replace(item["name"], item["value"])\<close> for every
  item, where \<open>value\<close> is the value the entry had when the outer loop reached it.
\<close>

fun replace_items ::
  "string \<Rightarrow> string \<Rightarrow> search_replace list \<Rightarrow> (string \<times> string) list \<Rightarrow> (string \<times> string) list" where
  "replace_items key val [] environment = environment"
| "replace_items key val (item # items) environment =
     replace_items key val items
       (dict_set environment key (replace val (sr_name item) (sr_value item)))"

fun replace_entries ::
  "(string \<times> string) list \<Rightarrow> search_replace list \<Rightarrow> (string \<times> string) list \<Rightarrow> (string \<times> string) list" where
  "replace_entries [] items environment = environment"
| "replace_entries ((key, val) # entries) items environment =
     replace_entries entries items (replace_items key val items environment)"

definition search_replace_in_values ::
  "search_replace list \<Rightarrow> (string \<times> string) list \<Rightarrow> (string \<times> string) list" where
  "search_replace_in_values items environment =
     (if items \<noteq> [] then replace_entries environment items environment else environment)"

definition job_environment :: "world \<Rightarrow> plugin \<Rightarrow> instance_data \<Rightarrow> (string \<times> string) list" where
  "job_environment w self inst =
     search_replace_in_values (env_search_replace_values self) (collect_environment w self inst)"

fun environment_key_values :: "nat \<Rightarrow> (string \<times> string) list \<Rightarrow> (string \<times> pyval) list" where
  "environment_key_values index [] = []"
| "environment_key_values index ((key, val) # environment) =
     (''EnvironmentKeyValue'' @ str_nat index, PStr (key @ ''='' @ val))
       # environment_key_values (Suc index) environment"

subsection \<open>\<open>payload_submit\<close>: the payload\<close>

record payload =
  JobInfo :: "(string \<times> pyval) list"
  PluginInfo :: "(string \<times> pyval) list"
  AuxFiles :: "pyval list"

text \<open>\<open>try: os.makedirs(render_dir) except OSError: pass\<close>: the exception that leaves the
  statement, if any.\<close>

definition ensure_render_folder :: "world \<Rightarrow> string \<Rightarrow> exn option" where
  "ensure_render_folder w render_dir =
     (case makedirs w render_dir of
        None \<Rightarrow> None
      | Some (OSError e) \<Rightarrow> None
      | Some e \<Rightarrow> Some e)"

text \<open>\<open>if response_data.get("_id"): payload["JobInfo"].update({"BatchName": ...,
  "JobDependency0": ...})\<close>. The two subscripts on \<open>Props\<close> and \<open>Batch\<close> may raise.\<close>

definition link_dependency ::
  "(string \<times> pyval) list \<Rightarrow> (string \<times> pyval) list \<Rightarrow> exn + (string \<times> pyval) list" where
  "link_dependency response_data job_info =
     (if truthy (dict_get response_data ''_id'' PNone) then
        (case subscript (PDict response_data) ''Props'' of
           Inl e \<Rightarrow> Inl e
         | Inr props \<Rightarrow>
             (case subscript props ''Batch'' of
                Inl e \<Rightarrow> Inl e
              | Inr batch \<Rightarrow>
                  Inr (dict_update job_info
                         [(''BatchName'', batch),
                          (''JobDependency0'', dict_get response_data ''_id'' PNone)])))
      else Inr job_info)"

text \<open>
  Lines 208 to 353 of \<open>payload_submit\<close>: the dictionary \<open>payload\<close> as it stands after the
  environment has been added, or the exception raised on the way. In tests line 216 evaluates
  \<open>datetime.now()\<close>, and \<open>datetime\<close> is not bound.
\<close>

definition payload_of ::
  "world \<Rightarrow> plugin \<Rightarrow> instance_data \<Rightarrow> pyval \<Rightarrow> string \<Rightarrow> string \<Rightarrow> int \<Rightarrow> int
     \<Rightarrow> (string \<times> pyval) list option \<Rightarrow> bool \<Rightarrow> exn + payload" where
  "payload_of w self inst script_path render_path exe_node_name start_frame end_frame
       response_data baking_submission =
     (let render_dir = normpath (os_path w) (dirname (os_path w) render_path);
          src_filepath = currentFile (ctx inst);
          batch_name = basename (os_path w) src_filepath;
          job_name = basename (os_path w) render_path
      in if is_in_tests w then Inl (NameError ''datetime'')
         else
           (let output_filename_0 = preview_fname w render_path;
                response = (case response_data of None \<Rightarrow> [] | Some d \<Rightarrow> d)
            in case ensure_render_folder w render_dir of
                 Some e \<Rightarrow> Inl e
               | None \<Rightarrow>
                   (let limit_groups = self_get_limit_groups w;
                        plugin_name =
                          (case plugin_name_setting w of None \<Rightarrow> ''Nuke'' | Some n \<Rightarrow> n)
                    in case self_ver self of
                         None \<Rightarrow> Inl AttributeError
                       | Some ver \<Rightarrow>
                           (let job0 =
                                  [(''BatchName'', PStr batch_name),
                                   (''Name'', PStr job_name),
                                   (''UserName'', PStr (self_deadline_user self)),
                                   (''Priority'',
                                      dict_get (attributeValues inst) ''priority'' (priority self)),
                                   (''ChunkSize'',
                                      dict_get (attributeValues inst) ''chunk'' (chunk_size self)),
                                   (''ConcurrentTasks'',
                                      dict_get (attributeValues inst) ''concurrency''
                                        (concurrent_tasks self)),
                                   (''Department'', department self),
                                   (''Pool'', primaryPool inst),
                                   (''SecondaryPool'', secondaryPool inst),
                                   (''Group'', group self),
                                   (''Plugin'', PStr plugin_name),
                                   (''Frames'',
                                      PStr (str_int start_frame @ ''-'' @ str_int end_frame)),
                                   (''Comment'', PStr (self_comment self)),
                                   (''OutputFilename0'',
                                      PStr (replace output_filename_0 [backslash] ''/'')),
                                   (''LimitGroups'', PStr (str_join '','' limit_groups))];
                                plugin0 =
                                  [(''SceneFile'', script_path),
                                   (''OutputFilePath'', PStr (replace render_dir [backslash] ''/'')),
                                   (''Version'', PStr ver),
                                   (''ProjectPath'', script_path),
                                   (''AWSAssetFile0'', PStr render_path),
                                   (''UseGpu'',
                                      dict_get (attributeValues inst) ''use_gpu'' (use_gpu self)),
                                   (''WriteNode'', PStr exe_node_name)];
                                job1 =
                                  (if truthy (dict_get (attributeValues inst) ''workfile_dependency''
                                                (workfile_dependency self))
                                   then dict_update job0 [(''AssetDependency0'', script_path)]
                                   else job0);
                                job2 =
                                  (if baking_submission
                                   then dict_update job1
                                          [(''JobType'', PStr ''Normal''),
                                           (''ChunkSize'', PInt 99999999)]
                                   else job1)
                            in case link_dependency response job2 of
                                 Inl e \<Rightarrow> Inl e
                               | Inr job3 \<Rightarrow>
                                   Inr \<lparr> JobInfo =
                                           dict_update job3
                                             (environment_key_values 0
                                                (job_environment w self inst)),
                                         PluginInfo = plugin0,
                                         AuxFiles = [] \<rparr>))))"

subsection \<open>\<open>payload_submit\<close>\<close>

text \<open>
  \<open>payload_submit\<close> builds the payload (lines 208 to 353) and then logs it with
  \<open>json.dumps(payload, ...)\<close> at line 359. \<open>json\<close> is not bound in the module, so every call
  that has built its payload raises \<open>NameError\<close> there. The statements after line 359 (the
  call of \<open>_expected_files\<close> at line 366, the job-info path of lines 373 to 442) are not
  reached, and \<open>instance.data\<close> is as it was. What the method hands back would be a Python
  value; no call gets that far.
\<close>

definition payload_submit ::
  "world \<Rightarrow> plugin \<Rightarrow> instance_data \<Rightarrow> pyval \<Rightarrow> string \<Rightarrow> string \<Rightarrow> int \<Rightarrow> int
     \<Rightarrow> (string \<times> pyval) list option \<Rightarrow> bool \<Rightarrow> (exn + pyval) \<times> instance_data" where
  "payload_submit w self inst script_path render_path exe_node_name start_frame end_frame
       response_data baking_submission =
     (case payload_of w self inst script_path render_path exe_node_name start_frame end_frame
             response_data baking_submission of
        Inl e \<Rightarrow> (Inl e, inst)
      | Inr payload \<Rightarrow> (Inl (NameError ''json''), inst))"

subsection \<open>\<open>process\<close>\<close>

text \<open>
  \<open>process\<close> returns at once for an instance that is not for the farm, asserts that the
  Deadline URL is not empty, sets attributes of \<open>self\<close>, and at line 63 evaluates
  \<open>getpass.getuser()\<close> as the default argument of \<open>context.data.get\<close>. \<open>getpass\<close> is not
  bound in the module, so the run raises \<open>NameError\<close> there, before any call of
  \<open>payload_submit\<close>; \<open>instance.data\<close> is as it was.
\<close>

definition process :: "world \<Rightarrow> plugin \<Rightarrow> instance_data \<Rightarrow> exn option \<times> instance_data" where
  "process w self inst =
     (if \<not> farm inst then (None, inst)
      else if deadline_url inst = [] then (Some AssertionError, inst)
      else (Some (NameError ''getpass''), inst))"

section \<open>Notions used in the statements\<close>

text \<open>
  \<open>digits_val\<close> is the number that a string of decimal digits denotes. \<open>already_expected\<close> is
  the list \<open>instance.data["expectedFiles"]\<close> holds before a call (empty when the entry is
  absent). \<open>matched_by_enabled_node\<close> says that some node of the script that is not disabled
  matches one of the node classes of a limit group. \<open>last_rule_only\<close> applies the last
  search and replace item of a list to a value, \<open>all_rules\<close> applies every item in turn.
  \<open>job_info_entry\<close> reads an entry of the \<open>JobInfo\<close> part of a payload that has been built
  (\<open>None\<close> when the entry is absent or no payload was built).
\<close>

definition digits_val :: "string \<Rightarrow> nat" where
  "digits_val ds = foldl (\<lambda>w c. w * 10 + digit_val c) 0 ds"

definition already_expected :: "instance_data \<Rightarrow> string list" where
  "already_expected inst = (case expectedFiles inst of None \<Rightarrow> [] | Some fs \<Rightarrow> fs)"

definition matched_by_enabled_node :: "node list \<Rightarrow> limit_group \<Rightarrow> bool" where
  "matched_by_enabled_node nodes g =
     (\<exists>node_class\<in>set (lg_value g). \<exists>n\<in>set nodes.
        str_in (node_Class n) node_class \<and> \<not> node_disable n)"

definition last_rule_only :: "search_replace list \<Rightarrow> string \<Rightarrow> string" where
  "last_rule_only items val = replace val (sr_name (last items)) (sr_value (last items))"

definition all_rules :: "search_replace list \<Rightarrow> string \<Rightarrow> string" where
  "all_rules items val = foldl (\<lambda>s item. replace s (sr_name item) (sr_value item)) val items"

definition job_info_entry :: "exn + payload \<Rightarrow> string \<Rightarrow> pyval option" where
  "job_info_entry r k = (case r of Inl e \<Rightarrow> None | Inr p \<Rightarrow> map_of (JobInfo p) k)"

section \<open>Example inputs\<close>

text \<open>
  A render instance of the workfile \<open>/work/sceneA.nk\<close> that writes
  \<open>/out/render.####.exr\<close> for the frames 1001 to 1005, on a POSIX host where every directory
  can be created.
\<close>

definition example_context :: context_data where
  "example_context =
     \<lparr> currentFile = ''/work/sceneA.nk'', comment = None, hostVersion = ''15.1v3'',
       deadlineUser = Some ''artist'' \<rparr>"

definition example_instance :: instance_data where
  "example_instance =
     \<lparr> ctx = example_context, farm = True, render_target = ''local'',
       path = ''/out/render.####.exr'', frameStartHandle = 1001, frameEndHandle = 1005,
       expectedFiles = None, representations = [], slate = False, bakingNukeScripts = [],
       attributeValues = [],
       primaryPool = PNone, secondaryPool = PNone, deadline_url = ''http://deadline:8082'',
       deadlineSubmissionJob = None, outputDir = None, publishJobState = None,
       bakingSubmissionJobs = None, productType = ''render'', family = None,
       families = None \<rparr>"

definition example_plugin :: plugin where
  "example_plugin =
     \<lparr> priority = PInt 50, chunk_size = PInt 10, concurrent_tasks = PInt 1,
       department = PStr '''', group = PStr '''', use_gpu = PBool True,
       workfile_dependency = PBool True,
       env_allowed_keys = [''STUDIO_TOOLS''],
       env_search_replace_values = [],
       self_comment = '''', self_ver = Some ''15.1'', self_deadline_user = ''artist'' \<rparr>"

definition example_world :: world where
  "example_world =
     \<lparr> os_path = posixpath,
       os_environ = map_of [(''NUKE_PATH'', ''/studio/nuke''), (''OCIO'', ''/studio/config.ocio'')],
       makedirs = (\<lambda>dir. None), is_in_tests = False, plugin_name_setting = None,
       get_instance_job_envs =
         (\<lambda>inst. [(''AYON_WORKDIR'', ''P:/projects/demo''), (''OCIO'', ''/instance/config.ocio'')]),
       get_ayon_render_job_envs = [(''AYON_RENDER_JOB'', ''1'')],
       self_get_limit_groups = [], preview_fname = (\<lambda>p. p) \<rparr>"


text \<open>Limit groups and nodes: two enabled nodes match the first group, the only node that
  matches the second group is disabled, and the third group has the name of the first.\<close>

definition example_groups :: "limit_group list" where
  "example_groups =
     [\<lparr> lg_name = ''pointcloud'', lg_value = [''WriteGeo'', ''ReadGeo''] \<rparr>,
      \<lparr> lg_name = ''denoise'', lg_value = [''Denoise2''] \<rparr>,
      \<lparr> lg_name = ''pointcloud'', lg_value = [''Grade''] \<rparr>]"

definition example_nodes :: "node list" where
  "example_nodes =
     [\<lparr> node_Class = ''WriteGeo'', node_disable = False \<rparr>,
      \<lparr> node_Class = ''ReadGeo'', node_disable = False \<rparr>,
      \<lparr> node_Class = ''Denoise2'', node_disable = True \<rparr>,
      \<lparr> node_Class = ''Grade'', node_disable = False \<rparr>]"

text \<open>Two search and replace items, a host where no directory may be created, and an
  instance with one baking script.\<close>

definition two_rules :: "search_replace list" where
  "two_rules =
     [\<lparr> sr_name = ''P:'', sr_value = ''/mnt/p'' \<rparr>, \<lparr> sr_name = ''projects'', sr_value = ''prj'' \<rparr>]"

definition denied_world :: world where
  "denied_world = example_world\<lparr>makedirs := (\<lambda>dir. Some (OSError PermissionError))\<rparr>"

definition baking_instance :: instance_data where
  "baking_instance =
     example_instance\<lparr>frameEndHandle := 1002,
       bakingNukeScripts :=
         [\<lparr> bakeRenderPath = ''/out/bake.mov'', bakeScriptPath = ''/work/bake.nk'',
            bakeWriteNodeName = ''Write_bake'' \<rparr>]\<rparr>"

section \<open>Strings and formatting\<close>

lemma str_in_iff: "str_in needle hay \<longleftrightarrow> (\<exists>ps ss. hay = ps @ needle @ ss)"
proof (induction hay)
  case Nil
  then show ?case by auto
next
  case (Cons c cs)
  show ?case
  proof
    assume "str_in needle (c # cs)"
    then consider "prefix needle (c # cs)" | "str_in needle cs" by auto
    then show "\<exists>ps ss. c # cs = ps @ needle @ ss"
    proof cases
      case 1
      then obtain ss where "c # cs = needle @ ss" by (auto simp: prefix_def)
      then have "c # cs = [] @ needle @ ss" by simp
      then show ?thesis by blast
    next
      case 2
      with Cons.IH obtain ps ss where "cs = ps @ needle @ ss" by blast
      then have "c # cs = (c # ps) @ needle @ ss" by simp
      then show ?thesis by blast
    qed
  next
    assume "\<exists>ps ss. c # cs = ps @ needle @ ss"
    then obtain ps ss where eq: "c # cs = ps @ needle @ ss" by blast
    show "str_in needle (c # cs)"
    proof (cases ps)
      case Nil
      with eq have "prefix needle (c # cs)" by (simp add: prefix_def)
      then show ?thesis by simp
    next
      case (Cons p ps')
      with eq have "cs = ps' @ needle @ ss" by simp
      with Cons.IH have "str_in needle cs" by blast
      then show ?thesis by simp
    qed
  qed
qed

lemma replace_from_char:
  "replace_from 0 [b] new s = concat (map (\<lambda>c. if c = b then new else [c]) s)"
  by (induction s) auto

lemma replace_removes_char:
  "b \<notin> set new \<Longrightarrow> b \<notin> set (replace s [b] new)"
  by (auto simp: replace_def replace_from_char split: if_splits)

lemma split_chr_nonempty: "split_chr sep s \<noteq> []"
  by (induction s) (auto simp: Let_def)

lemma split_chr_no_sep: "sep \<notin> set s \<Longrightarrow> split_chr sep s = [s]"
  by (induction s) (auto simp: Let_def)

lemma split_chr_length: "length (split_chr sep s) = Suc (count_list s sep)"
  using split_chr_nonempty[of sep]
  by (induction s) (auto simp: Let_def)

lemma split_chr_hd: "hd (split_chr sep s) = takeWhile (\<lambda>c. c \<noteq> sep) s"
  by (induction s) (auto simp: Let_def)

lemma split_chr_hashes:
  "sep \<notin> set post \<Longrightarrow> split_chr sep (replicate n sep @ post) = replicate n [] @ [post]"
  by (induction n) (auto simp: split_chr_no_sep Let_def)

lemma split_chr_single_run:
  assumes "sep \<notin> set pre" "sep \<notin> set post"
  shows "split_chr sep (pre @ replicate (Suc m) sep @ post) = pre # replicate m [] @ [post]"
  using assms(1)
proof (induction pre)
  case Nil
  then show ?case using split_chr_hashes[OF assms(2), of "Suc m"] by simp
next
  case (Cons c cs)
  then show ?case by (auto simp: Let_def)
qed

lemma digit_char_props: "d < 10 \<Longrightarrow> is_digit (digit_char d) \<and> digit_val (digit_char d) = d \<and> (0 < d \<longrightarrow> digit_char d \<noteq> CHR ''0'')"
proof -
  assume "d < 10"
  then have "d \<in> {0, 1, 2, 3, 4, 5, 6, 7, 8, 9}" by auto
  then show ?thesis
    by (elim insertE emptyE) (simp_all add: digit_char_def is_digit_def digit_val_def)
qed

lemma str_nat_digits: "\<forall>c\<in>set (str_nat n). is_digit c"
proof (induction n rule: str_nat.induct)
  case (1 n)
  show ?case
  proof (cases "n < 10")
    case True
    then show ?thesis using digit_char_props[of n] by (subst str_nat.simps) simp
  next
    case False
    then show ?thesis using 1 digit_char_props[of "n mod 10"] by (subst str_nat.simps) auto
  qed
qed

lemma str_nat_nonempty: "str_nat n \<noteq> []"
  by (subst str_nat.simps) simp

lemma str_nat_hd: "0 < n \<Longrightarrow> hd (str_nat n) \<noteq> CHR ''0''"
proof (induction n rule: str_nat.induct)
  case (1 n)
  show ?case
  proof (cases "n < 10")
    case True
    then show ?thesis using digit_char_props[of n] 1(2) by (subst str_nat.simps) simp
  next
    case False
    then have "0 < n div 10" by simp
    with 1 False have "hd (str_nat (n div 10)) \<noteq> CHR ''0''" by simp
    then show ?thesis using False str_nat_nonempty[of "n div 10"] by (subst str_nat.simps) simp
  qed
qed

lemma digits_val_str_nat: "digits_val (str_nat n) = n"
proof (induction n rule: str_nat.induct)
  case (1 n)
  show ?case
  proof (cases "n < 10")
    case True
    then show ?thesis using digit_char_props[of n] by (subst str_nat.simps) (simp add: digits_val_def)
  next
    case False
    then have "digits_val (str_nat (n div 10)) = n div 10" using 1 by simp
    then show ?thesis using False digit_char_props[of "n mod 10"]
      by (subst str_nat.simps) (simp add: digits_val_def)
  qed
qed

text \<open>A format with one directive \<open>%\<close>, zero flags, width, conversion, and no other percent
  sign, prints the text before, the integer, and the text after.\<close>

lemma fmt_literal_prefix:
  "CHR ''%'' \<notin> set pre \<Longrightarrow>
   fmt_run Literal used i (pre @ rest) =
     (case fmt_run Literal used i rest of Inl e \<Rightarrow> Inl e | Inr s \<Rightarrow> Inr (pre @ s))"
  by (induction pre) (auto split: sum.splits)

lemma fmt_literal_suffix:
  "CHR ''%'' \<notin> set post \<Longrightarrow> fmt_run Literal True i post = Inr post"
  by (induction post) auto

lemma fmt_zero_flags:
  "fmt_run (Flags z) used i (replicate k (CHR ''0'') @ rest) =
     fmt_run (Flags (z \<or> 0 < k)) used i rest"
  by (induction k arbitrary: z) auto

lemma fmt_width_digits:
  "\<forall>c\<in>set ds. is_digit c \<Longrightarrow>
   fmt_run (Width z w) used i (ds @ rest) =
     fmt_run (Width z (foldl (\<lambda>w c. w * 10 + digit_val c) w ds)) used i rest"
  by (induction ds arbitrary: w) auto

lemma conv_not_digit: "conv \<in> set ''diu'' \<Longrightarrow> \<not> is_digit conv \<and> conv \<noteq> CHR ''%'' \<and> conv \<noteq> CHR ''0''"
  by (auto simp: is_digit_def)

lemma fmt_directive:
  assumes ds: "\<forall>c\<in>set ds. is_digit c" and hd0: "ds \<noteq> [] \<longrightarrow> hd ds \<noteq> CHR ''0''"
    and conv: "conv \<in> set ''diu''" and post: "CHR ''%'' \<notin> set post"
  shows "fmt_run (Flags z) False i (ds @ conv # post) = Inr (format_d z (digits_val ds) i @ post)"
proof (cases ds)
  case Nil
  then show ?thesis
    using conv_not_digit[OF conv] conv fmt_literal_suffix[OF post, of i]
    by (simp add: digits_val_def)
next
  case (Cons d ds')
  with ds hd0 have d: "is_digit d" "d \<noteq> CHR ''0''" and ds': "\<forall>c\<in>set ds'. is_digit c" by auto
  have "fmt_run (Flags z) False i (ds @ conv # post)
      = fmt_run (Width z (digit_val d)) False i (ds' @ conv # post)"
    using d Cons by simp
  also have "\<dots> = fmt_run (Width z (foldl (\<lambda>w c. w * 10 + digit_val c) (digit_val d) ds')) False i (conv # post)"
    by (rule fmt_width_digits[OF ds'])
  also have "\<dots> = Inr (format_d z (digits_val ds) i @ post)"
    using conv_not_digit[OF conv] conv fmt_literal_suffix[OF post, of i] Cons
    by (simp add: digits_val_def)
  finally show ?thesis .
qed

lemma py_format_placeholder:
  assumes pre: "CHR ''%'' \<notin> set pre" and post: "CHR ''%'' \<notin> set post"
    and ds: "\<forall>c\<in>set ds. is_digit c" and hd0: "ds \<noteq> [] \<longrightarrow> hd ds \<noteq> CHR ''0''"
    and conv: "conv \<in> set ''diu''"
  shows "py_format (pre @ ''%'' @ replicate k (CHR ''0'') @ ds @ conv # post) i
           = Inr (pre @ format_d (0 < k) (digits_val ds) i @ post)"
proof -
  have "fmt_run Literal False i (''%'' @ replicate k (CHR ''0'') @ ds @ conv # post)
        = fmt_run (Flags False) False i (replicate k (CHR ''0'') @ ds @ conv # post)" by simp
  also have "\<dots> = fmt_run (Flags (0 < k)) False i (ds @ conv # post)"
    using fmt_zero_flags[of False False i k "ds @ conv # post"] by simp
  also have "\<dots> = Inr (format_d (0 < k) (digits_val ds) i @ post)"
    by (rule fmt_directive[OF ds hd0 conv post])
  finally show ?thesis
    unfolding py_format_def using fmt_literal_prefix[OF pre, of False i] by simp
qed

lemma py_format_hash_padding:
  assumes "CHR ''%'' \<notin> set pre" "CHR ''%'' \<notin> set post" "0 < n"
  shows "py_format (pre @ ''%0'' @ str_nat n @ ''d'' @ post) i = Inr (pre @ format_d True n i @ post)"
  using py_format_placeholder[OF assms(1,2) str_nat_digits, of n "CHR ''d''" 1 i] str_nat_hd[OF assms(3)]
  by (simp add: digits_val_str_nat)

section \<open>Dictionaries\<close>

lemma map_of_dict_set: "map_of (dict_set d k v) = (map_of d)(k \<mapsto> v)"
  by (induction d) (auto simp: fun_eq_iff)

lemma map_of_dict_update: "map_of (dict_update d e) = map_of d ++ map_of (rev e)"
  unfolding dict_update_def
proof (induction e arbitrary: d)
  case Nil
  then show ?case by simp
next
  case (Cons x e)
  obtain k v where x: "x = (k, v)" by (cases x)
  have "map_of (foldl (\<lambda>acc (k, v). dict_set acc k v) d (x # e))
        = map_of (dict_set d k v) ++ map_of (rev e)"
    using Cons[of "dict_set d k v"] x by simp
  also have "\<dots> = map_of d ++ map_of (rev (x # e))"
    by (simp add: map_of_dict_set x fun_eq_iff map_add_def split: option.splits)
  finally show ?case .
qed

lemma map_of_dict_update_other:
  "k \<notin> fst ` set e \<Longrightarrow> map_of (dict_update d e) k = map_of d k"
  by (simp add: map_of_dict_update map_add_def map_of_eq_None_iff[THEN iffD2] split: option.splits)

lemma map_of_rev_distinct: "distinct (map fst xs) \<Longrightarrow> map_of (rev xs) = map_of xs"
proof (induction xs)
  case Nil
  then show ?case by simp
next
  case (Cons x xs)
  obtain a b where x: "x = (a, b)" by (cases x)
  from Cons.prems x have "a \<notin> fst ` set xs" by simp
  then have none: "map_of xs a = None" by (simp add: map_of_eq_None_iff)
  have ih: "map_of (rev xs) = map_of xs" using Cons by simp
  show ?case
  proof
    fix k
    show "map_of (rev (x # xs)) k = map_of (x # xs) k"
      using none by (simp add: x ih map_add_def split: option.splits)
  qed
qed

lemma dict_set_keys:
  "map fst (dict_set d k v) = (if k \<in> set (map fst d) then map fst d else map fst d @ [k])"
proof (induction d)
  case Nil
  then show ?case by simp
next
  case (Cons x d)
  obtain k' v' where x: "x = (k', v')" by (cases x)
  show ?case
  proof (cases "k' = k")
    case True
    then show ?thesis by (simp add: x)
  next
    case False
    then have "k \<in> set (map fst (x # d)) \<longleftrightarrow> k \<in> set (map fst d)" by (auto simp: x)
    then show ?thesis using False Cons.IH by (simp add: x del: set_map)
  qed
qed

lemma dict_set_distinct: "distinct (map fst d) \<Longrightarrow> distinct (map fst (dict_set d k v))"
  by (simp only: dict_set_keys split: if_splits) simp

section \<open>Expected files\<close>

lemma hash_to_padding_single_run:
  assumes "CHR ''#'' \<notin> set pre" "CHR ''#'' \<notin> set post" "0 < n"
  shows "hash_to_padding (pre @ replicate n (CHR ''#'') @ post) = pre @ ''%0'' @ str_nat n @ ''d'' @ post"
proof -
  from assms(3) obtain m where n: "n = Suc m" by (cases n) auto
  show ?thesis
    unfolding n hash_to_padding_def Let_def split_chr_single_run[OF assms(1,2)]
    by simp
qed

text \<open>In general the width of the placeholder is the number of all hash characters of the
  name, and only the text before the first and after the last of them is kept.\<close>

lemma hash_to_padding_general:
  assumes "CHR ''#'' \<in> set file"
  shows "hash_to_padding file =
           takeWhile (\<lambda>c. c \<noteq> CHR ''#'') file
           @ ''%0'' @ str_nat (count_list file (CHR ''#'')) @ ''d''
           @ last (split_chr (CHR ''#'') file)"
  using assms by (simp add: hash_to_padding_def Let_def split_chr_length split_chr_hd)

lemma append_frames_ok:
  assumes "\<forall>i\<in>set frames. py_format file i = Inr (name i)"
  shows "append_frames os dir file frames acc =
           (None, acc @ map (\<lambda>i. replace (join os dir (name i)) [backslash] ''/'') frames)"
  using assms by (induction frames arbitrary: acc) auto

lemma expected_files_sequence:
  assumes "render_target inst \<noteq> ''frames_farm''"
    and "\<not> on_farm_repre (basename os filepath) (representations inst)"
    and "CHR ''%'' \<in> set (hash_to_padding (basename os filepath))"
    and "\<forall>i. py_format (hash_to_padding (basename os filepath)) i = Inr (name i)"
  shows "expected_files os inst filepath start_frame end_frame =
           (None, inst\<lparr>expectedFiles := Some (already_expected inst @
              map (\<lambda>i. replace (join os (dirname os filepath) (name i)) [backslash] ''/'')
                [(if slate inst then start_frame - 1 else start_frame)..end_frame])\<rparr>)"
proof -
  have "append_frames os (dirname os filepath) (hash_to_padding (basename os filepath)) frames acc =
          (None, acc @ map (\<lambda>i. replace (join os (dirname os filepath) (name i)) [backslash] ''/'') frames)"
    for frames acc
    using assms(4) by (intro append_frames_ok) simp
  then show ?thesis
    using assms(1,2,3) by (simp add: expected_files_def Let_def already_expected_def)
qed

text \<open>
  Claim C8. When the resolver runs (the target is not \<open>frames_farm\<close> and no representation
  tagged \<open>publish_on_farm\<close> holds the file) and the basename of the output path has neither
  \<open>#\<close> nor \<open>%\<close>, it appends exactly one entry, the path itself, to the expected files,
  whatever the start and end frame are.
\<close>

theorem single_file_appended_once:
  assumes "render_target inst \<noteq> ''frames_farm''"
    and "\<not> on_farm_repre (basename os filepath) (representations inst)"
    and "CHR ''#'' \<notin> set (basename os filepath)"
    and "CHR ''%'' \<notin> set (basename os filepath)"
  shows "expected_files os inst filepath start_frame end_frame =
           (None, inst\<lparr>expectedFiles := Some (already_expected inst @ [filepath])\<rparr>)"
  using assms by (simp add: expected_files_def hash_to_padding_def Let_def already_expected_def)

theorem single_file_appended_once_witness:
  "expected_files posixpath example_instance ''/out/review.mov'' 1 100 =
     (None, example_instance\<lparr>expectedFiles := Some [''/out/review.mov'']\<rparr>)"
proof -
  have b: "basename posixpath ''/out/review.mov'' = ''review.mov''"
    by (simp add: posixpath_def posix_basename_def)
  have "render_target example_instance \<noteq> ''frames_farm''"
    and "\<not> on_farm_repre (basename posixpath ''/out/review.mov'') (representations example_instance)"
    and "CHR ''#'' \<notin> set (basename posixpath ''/out/review.mov'')"
    and "CHR ''%'' \<notin> set (basename posixpath ''/out/review.mov'')"
    unfolding b by (simp_all add: example_instance_def)
  from single_file_appended_once[OF this, of 1 100]
  show ?thesis by (simp add: already_expected_def example_instance_def)
qed

text \<open>
  Claim C7. When the resolver runs and the pattern (after the hash conversion) holds one
  numeric placeholder, the expansion covers the frames from \<open>start\<close>, or from \<open>start - 1\<close>
  when the slate flag is set, up to \<open>end\<close>, in increasing order, one path for each frame:
  \<open>end - start + 1\<close> paths without the slate flag and \<open>end - start + 2\<close> with it (none when
  that number is negative), and no path holds a backslash.
\<close>

theorem frames_expansion:
  assumes "render_target inst \<noteq> ''frames_farm''"
    and "\<not> on_farm_repre (basename os filepath) (representations inst)"
    and "hash_to_padding (basename os filepath) =
           pre @ ''%'' @ replicate k (CHR ''0'') @ ds @ conv # post"
    and "CHR ''%'' \<notin> set pre" and "CHR ''%'' \<notin> set post"
    and "\<forall>c\<in>set ds. is_digit c" and "ds \<noteq> [] \<longrightarrow> hd ds \<noteq> CHR ''0''"
    and "conv \<in> set ''diu''"
  shows "\<exists>new.
           expected_files os inst filepath start_frame end_frame =
             (None, inst\<lparr>expectedFiles := Some (already_expected inst @ new)\<rparr>)
         \<and> new = map (\<lambda>i. replace (join os (dirname os filepath)
                                      (pre @ format_d (0 < k) (digits_val ds) i @ post))
                              [backslash] ''/'')
                    [(if slate inst then start_frame - 1 else start_frame)..end_frame]
         \<and> length new = nat (end_frame - start_frame + (if slate inst then 2 else 1))
         \<and> (\<forall>p\<in>set new. backslash \<notin> set p)"
proof -
  let ?file = "hash_to_padding (basename os filepath)"
  have pc: "CHR ''%'' \<in> set ?file" unfolding assms(3) by simp
  have fmt: "\<forall>i. py_format ?file i = Inr (pre @ format_d (0 < k) (digits_val ds) i @ post)"
    unfolding assms(3) using py_format_placeholder[OF assms(4,5,6,7,8)] by simp
  have bs: "backslash \<notin> set ''/''" by (simp add: backslash_def)
  show ?thesis
    using expected_files_sequence[OF assms(1,2) pc fmt] replace_removes_char[OF bs]
    by auto
qed

theorem frames_expansion_witness:
  "expected_files posixpath (example_instance\<lparr>slate := True\<rparr>) ''/out/comp.%04d.exr'' 1 3 =
     (None, example_instance\<lparr>slate := True, expectedFiles :=
        Some [''/out/comp.0000.exr'', ''/out/comp.0001.exr'', ''/out/comp.0002.exr'',
              ''/out/comp.0003.exr'']\<rparr>)"
proof -
  have b: "basename posixpath ''/out/comp.%04d.exr'' = ''comp.%04d.exr''"
    by (simp add: posixpath_def posix_basename_def)
  have d: "dirname posixpath ''/out/comp.%04d.exr'' = ''/out''"
    by (simp add: posixpath_def posix_dirname_def)
  have h: "hash_to_padding ''comp.%04d.exr'' = ''comp.'' @ ''%'' @ replicate 1 (CHR ''0'') @ ''4'' @ CHR ''d'' # ''.exr''"
    by (simp add: hash_to_padding_def)
  have m: "map (\<lambda>i. replace (join posixpath ''/out'' (''comp.'' @ format_d (0 < (1::nat)) (digits_val ''4'') i @ ''.exr''))
                  [backslash] ''/'') [(if True then 1 - 1 else 1)..3]
           = [''/out/comp.0000.exr'', ''/out/comp.0001.exr'', ''/out/comp.0002.exr'', ''/out/comp.0003.exr'']"
    by code_simp
  have "render_target (example_instance\<lparr>slate := True\<rparr>) \<noteq> ''frames_farm''"
    and "\<not> on_farm_repre (basename posixpath ''/out/comp.%04d.exr'')
            (representations (example_instance\<lparr>slate := True\<rparr>))"
    and "hash_to_padding (basename posixpath ''/out/comp.%04d.exr'') =
           ''comp.'' @ ''%'' @ replicate 1 (CHR ''0'') @ ''4'' @ CHR ''d'' # ''.exr''"
    and "CHR ''%'' \<notin> set ''comp.''" and "CHR ''%'' \<notin> set ''.exr''"
    and "\<forall>c\<in>set ''4''. is_digit c" and "''4'' \<noteq> [] \<longrightarrow> hd ''4'' \<noteq> CHR ''0''"
    and "CHR ''d'' \<in> set ''diu''"
    unfolding b h by (simp_all add: example_instance_def is_digit_def)
  from frames_expansion[OF this, of 1 3]
  show ?thesis unfolding d using m
    by (auto simp: already_expected_def example_instance_def)
qed

text \<open>
  Claim C4, amended. When the resolver runs and the basename is some text, exactly one run of
  \<open>n\<close> hash characters (\<open>n\<close> at least 1), and more text, with no other hash character, the
  pattern becomes the text before, \<open>%0nd\<close>, and the text after; and when that text holds no
  percent sign the expected files are the paths with the frame number padded with zeros to
  \<open>n\<close> digits.
\<close>

theorem hash_run_padding:
  assumes "render_target inst \<noteq> ''frames_farm''"
    and "\<not> on_farm_repre (basename os filepath) (representations inst)"
    and "basename os filepath = pre @ replicate n (CHR ''#'') @ post"
    and "0 < n"
    and "CHR ''#'' \<notin> set pre" and "CHR ''#'' \<notin> set post"
  shows "hash_to_padding (basename os filepath) = pre @ ''%0'' @ str_nat n @ ''d'' @ post
         \<and> (CHR ''%'' \<notin> set pre \<and> CHR ''%'' \<notin> set post \<longrightarrow>
              expected_files os inst filepath start_frame end_frame =
                (None, inst\<lparr>expectedFiles := Some (already_expected inst @
                   map (\<lambda>i. replace (join os (dirname os filepath)
                                       (pre @ format_d True n i @ post)) [backslash] ''/'')
                     [(if slate inst then start_frame - 1 else start_frame)..end_frame])\<rparr>))"
proof -
  have conv: "hash_to_padding (basename os filepath) = pre @ ''%0'' @ str_nat n @ ''d'' @ post"
    unfolding assms(3) by (rule hash_to_padding_single_run[OF assms(5,6,4)])
  have pc: "CHR ''%'' \<in> set (hash_to_padding (basename os filepath))"
    unfolding conv by simp
  show ?thesis
  proof (intro conjI impI)
    show "hash_to_padding (basename os filepath) = pre @ ''%0'' @ str_nat n @ ''d'' @ post"
      by (rule conv)
  next
    assume np: "CHR ''%'' \<notin> set pre \<and> CHR ''%'' \<notin> set post"
    then have fmt: "\<forall>i. py_format (hash_to_padding (basename os filepath)) i
                       = Inr (pre @ format_d True n i @ post)"
      unfolding conv using py_format_hash_padding[OF _ _ assms(4), of pre post] by simp
    show "expected_files os inst filepath start_frame end_frame =
                (None, inst\<lparr>expectedFiles := Some (already_expected inst @
                   map (\<lambda>i. replace (join os (dirname os filepath)
                                       (pre @ format_d True n i @ post)) [backslash] ''/'')
                     [(if slate inst then start_frame - 1 else start_frame)..end_frame])\<rparr>)"
      by (rule expected_files_sequence[OF assms(1,2) pc fmt])
  qed
qed

theorem hash_run_padding_witness:
  "hash_to_padding ''render.####.exr'' = ''render.%04d.exr''
   \<and> expected_files posixpath example_instance ''/out/render.####.exr'' 1001 1005 =
     (None, example_instance\<lparr>expectedFiles :=
        Some [''/out/render.1001.exr'', ''/out/render.1002.exr'', ''/out/render.1003.exr'',
              ''/out/render.1004.exr'', ''/out/render.1005.exr'']\<rparr>)"
proof -
  have b: "basename posixpath ''/out/render.####.exr'' = ''render.####.exr''"
    by (simp add: posixpath_def posix_basename_def)
  have d: "dirname posixpath ''/out/render.####.exr'' = ''/out''"
    by (simp add: posixpath_def posix_dirname_def)
  have s4: "str_nat 4 = ''4''" by code_simp
  have m: "map (\<lambda>i. replace (join posixpath ''/out'' (''render.'' @ format_d True 4 i @ ''.exr''))
                  [backslash] ''/'') [(if slate example_instance then 1001 - 1 else 1001)..1005]
           = [''/out/render.1001.exr'', ''/out/render.1002.exr'', ''/out/render.1003.exr'',
              ''/out/render.1004.exr'', ''/out/render.1005.exr'']"
    by code_simp
  have "render_target example_instance \<noteq> ''frames_farm''"
    and "\<not> on_farm_repre (basename posixpath ''/out/render.####.exr'')
            (representations example_instance)"
    and "basename posixpath ''/out/render.####.exr'' = ''render.'' @ replicate 4 (CHR ''#'') @ ''.exr''"
    and "0 < (4::nat)"
    and "CHR ''#'' \<notin> set ''render.''" and "CHR ''#'' \<notin> set ''.exr''"
    unfolding b by (simp_all add: example_instance_def eval_nat_numeral)
  from hash_run_padding[OF this, of 1001 1005]
  show ?thesis unfolding d b m s4
    by (simp add: already_expected_def example_instance_def)
qed

text \<open>
  The claim C4 as stated fails for a basename with two hash runs: for \<open>a#b#c.exr\<close> the
  width is 2, the number of hash characters in the whole name, although each run has
  length 1, and the text \<open>b\<close> between the runs is lost.
\<close>

theorem hash_runs_counterexample:
  "hash_to_padding ''a#b#c.exr'' = ''a%02dc.exr''
   \<and> expected_files posixpath example_instance ''/out/a#b#c.exr'' 1 2 =
     (None, example_instance\<lparr>expectedFiles := Some [''/out/a01c.exr'', ''/out/a02c.exr'']\<rparr>)"
  by code_simp

section \<open>Limit groups\<close>

lemma scan_nodes_eq:
  "scan_nodes name cls ns captured =
     (if (\<exists>n\<in>set ns. str_in (node_Class n) cls \<and> \<not> node_disable n) \<and> name \<notin> set captured
      then captured @ [name] else captured)"
  by (induction ns arbitrary: captured) auto

lemma scan_classes_eq:
  "scan_classes name clss ns captured =
     (if (\<exists>cls\<in>set clss. \<exists>n\<in>set ns. str_in (node_Class n) cls \<and> \<not> node_disable n) \<and> name \<notin> set captured
      then captured @ [name] else captured)"
  by (induction clss arbitrary: captured) (auto simp: scan_nodes_eq)

lemma scan_groups_snoc:
  "scan_groups (gs @ [g]) ns captured =
     scan_classes (lg_name g) (lg_value g) ns (scan_groups gs ns captured)"
  by (induction gs arbitrary: captured) auto

lemma scan_groups_eq:
  "scan_groups gs ns [] =
     rev (remdups (rev (map lg_name (filter (\<lambda>g. \<exists>cls\<in>set (lg_value g). \<exists>n\<in>set ns. str_in (node_Class n) cls \<and> \<not> node_disable n) gs))))"
proof (induction gs rule: rev_induct)
  case Nil
  then show ?case by simp
next
  case (snoc g gs)
  show ?case
    unfolding scan_groups_snoc snoc.IH scan_classes_eq
    by auto
qed

lemma get_limit_groups_eq:
  "get_limit_groups gs ns = rev (remdups (rev (map lg_name (filter (matched_by_enabled_node ns) gs))))"
  unfolding get_limit_groups_def scan_groups_eq matched_by_enabled_node_def ..

lemma matched_by_enabled_filter:
  "matched_by_enabled_node (filter (\<lambda>n. \<not> node_disable n) ns) = matched_by_enabled_node ns"
  by (auto simp: matched_by_enabled_node_def fun_eq_iff)

text \<open>
  Claim C5. The result holds every name at most once; a name is in the result exactly when
  some limit group of that name is matched by a node that is not disabled; the names come in
  the order of their first matched group; and disabled nodes count for nothing: the result
  is the same without them.
\<close>

theorem limit_groups_dedup_enabled:
  "distinct (get_limit_groups gs ns)
   \<and> (\<forall>l. l \<in> set (get_limit_groups gs ns) \<longleftrightarrow>
            (\<exists>g\<in>set gs. lg_name g = l \<and> matched_by_enabled_node ns g))
   \<and> get_limit_groups gs ns =
       rev (remdups (rev (map lg_name (filter (matched_by_enabled_node ns) gs))))
   \<and> get_limit_groups gs (filter (\<lambda>n. \<not> node_disable n) ns) = get_limit_groups gs ns"
proof (intro conjI allI)
  show "distinct (get_limit_groups gs ns)"
    by (simp add: get_limit_groups_eq)
  show "l \<in> set (get_limit_groups gs ns) \<longleftrightarrow>
            (\<exists>g\<in>set gs. lg_name g = l \<and> matched_by_enabled_node ns g)" for l
    by (auto simp: get_limit_groups_eq)
  show "get_limit_groups gs ns =
       rev (remdups (rev (map lg_name (filter (matched_by_enabled_node ns) gs))))"
    by (rule get_limit_groups_eq)
  show "get_limit_groups gs (filter (\<lambda>n. \<not> node_disable n) ns) = get_limit_groups gs ns"
    by (simp add: get_limit_groups_eq matched_by_enabled_filter)
qed

theorem limit_groups_dedup_enabled_witness:
  "get_limit_groups example_groups example_nodes = [''pointcloud'']
   \<and> distinct (get_limit_groups example_groups example_nodes)
   \<and> ''denoise'' \<notin> set (get_limit_groups example_groups example_nodes)"
proof -
  have m: "filter (matched_by_enabled_node example_nodes) example_groups =
             [\<lparr> lg_name = ''pointcloud'', lg_value = [''WriteGeo'', ''ReadGeo''] \<rparr>,
              \<lparr> lg_name = ''pointcloud'', lg_value = [''Grade''] \<rparr>]"
    by (simp add: matched_by_enabled_node_def example_nodes_def example_groups_def)
  show ?thesis
    using limit_groups_dedup_enabled[of example_groups example_nodes]
    unfolding m by simp
qed

text \<open>
  Claim C10. A node matches a configured node class when the node's class name is a
  contiguous part of the configured string, so a node of class \<open>Write\<close> matches the
  configured class \<open>WriteGeo\<close>.
\<close>

theorem limit_group_match_is_substring:
  "l \<in> set (get_limit_groups gs ns) \<longleftrightarrow>
     (\<exists>g\<in>set gs. lg_name g = l \<and>
        (\<exists>node_class\<in>set (lg_value g). \<exists>n\<in>set ns.
           \<not> node_disable n \<and> (\<exists>ps ss. node_class = ps @ node_Class n @ ss)))"
proof -
  have "l \<in> set (get_limit_groups gs ns) \<longleftrightarrow>
          (\<exists>g\<in>set gs. lg_name g = l \<and> matched_by_enabled_node ns g)"
    by (auto simp: get_limit_groups_eq)
  then show ?thesis
    unfolding matched_by_enabled_node_def str_in_iff by blast
qed

theorem limit_group_match_is_substring_witness:
  "''Write'' \<noteq> ''WriteGeo''
   \<and> ''geo'' \<in> set (get_limit_groups [\<lparr> lg_name = ''geo'', lg_value = [''WriteGeo''] \<rparr>]
                       [\<lparr> node_Class = ''Write'', node_disable = False \<rparr>])"
proof -
  have "''WriteGeo'' = [] @ ''Write'' @ ''Geo''" by simp
  then have "\<exists>ps ss. ''WriteGeo'' = ps @ ''Write'' @ ss" by blast
  then show ?thesis
    using limit_group_match_is_substring[of "''geo''" "[\<lparr> lg_name = ''geo'', lg_value = [''WriteGeo''] \<rparr>]"
        "[\<lparr> node_Class = ''Write'', node_disable = False \<rparr>]"]
    by simp
qed

section \<open>The job environment\<close>

lemma allowed_env_lookup:
  "map_of (foldl (\<lambda>d key. case env key of None \<Rightarrow> d | Some v \<Rightarrow> dict_set d key v) d0 keys) k =
     (if k \<in> set keys \<and> env k \<noteq> None then env k else map_of d0 k)"
  by (induction keys arbitrary: d0) (auto simp: map_of_dict_set split: option.splits)

lemma nuke_specific_env_lookup:
  "map_of (nuke_specific_env w self) k =
     (if k \<in> set (critical_keys @ env_allowed_keys self) then os_environ w k else None)"
  by (auto simp: nuke_specific_env_def allowed_env_lookup)

lemma allowed_env_distinct:
  "distinct (map fst d0) \<Longrightarrow>
   distinct (map fst (foldl (\<lambda>d key. case env key of None \<Rightarrow> d | Some v \<Rightarrow> dict_set d key v) d0 keys))"
  by (induction keys arbitrary: d0) (auto simp: dict_set_distinct split: option.splits)

lemma nuke_specific_env_distinct: "distinct (map fst (nuke_specific_env w self))"
  by (simp add: nuke_specific_env_def allowed_env_distinct)

text \<open>
  Claim C6. In the collected environment a key's value is the one read from the process
  environment when the key is on the allow-list and set there, else the one of the render-job
  environment, else the one of the instance environment; so a key of the instance environment
  that is on the allow-list and set in the process gets the process's value.
\<close>

theorem environment_overlay_precedence:
  assumes "distinct (map fst (get_ayon_render_job_envs w))"
  shows "map_of (collect_environment w self inst) k =
           (case (if k \<in> set (critical_keys @ env_allowed_keys self) then os_environ w k else None) of
              Some v \<Rightarrow> Some v
            | None \<Rightarrow>
                (case map_of (get_ayon_render_job_envs w) k of
                   Some v \<Rightarrow> Some v
                 | None \<Rightarrow> map_of (get_instance_job_envs w inst) k))
         \<and> (k \<in> set (critical_keys @ env_allowed_keys self) \<and> os_environ w k = Some v \<longrightarrow>
              map_of (collect_environment w self inst) k = Some v)"
proof -
  have "map_of (collect_environment w self inst) k =
          (map_of (get_instance_job_envs w inst) ++ map_of (get_ayon_render_job_envs w)
             ++ map_of (nuke_specific_env w self)) k"
    by (simp add: collect_environment_def map_of_dict_update
        map_of_rev_distinct[OF assms] map_of_rev_distinct[OF nuke_specific_env_distinct])
  then show ?thesis
    by (auto simp: map_add_def nuke_specific_env_lookup split: option.splits)
qed

theorem environment_overlay_precedence_witness:
  "map_of (get_instance_job_envs example_world example_instance) ''OCIO'' = Some ''/instance/config.ocio''
   \<and> map_of (collect_environment example_world example_plugin example_instance) ''OCIO''
       = Some ''/studio/config.ocio''"
proof -
  have d: "distinct (map fst (get_ayon_render_job_envs example_world))"
    by (simp add: example_world_def)
  have k: "''OCIO'' \<in> set (critical_keys @ env_allowed_keys example_plugin)
           \<and> os_environ example_world ''OCIO'' = Some ''/studio/config.ocio''"
    by (simp add: critical_keys_def example_world_def)
  show ?thesis
    using environment_overlay_precedence[OF d, where k = "''OCIO''" and self = example_plugin
        and v = "''/studio/config.ocio''" and inst = example_instance] k
    by (simp add: example_world_def)
qed

lemma replace_items_lookup:
  "items \<noteq> [] \<Longrightarrow>
   map_of (replace_items key val items environment) =
     (map_of environment)(key \<mapsto> last_rule_only items val)"
proof (induction items arbitrary: environment)
  case Nil
  then show ?case by simp
next
  case (Cons item items)
  show ?case
  proof (cases "items = []")
    case True
    then show ?thesis by (simp add: map_of_dict_set last_rule_only_def)
  next
    case False
    then show ?thesis using Cons.IH[OF False]
      by (simp add: map_of_dict_set last_rule_only_def fun_eq_iff)
  qed
qed

lemma replace_entries_lookup:
  "items \<noteq> [] \<Longrightarrow>
   map_of (replace_entries entries items environment) =
     map_of environment ++ map_of (rev (map (\<lambda>(k, v). (k, last_rule_only items v)) entries))"
proof (induction entries arbitrary: environment)
  case Nil
  then show ?case by simp
next
  case (Cons x entries)
  obtain key val where x: "x = (key, val)" by (cases x)
  show ?case
    using Cons.IH[OF Cons.prems] replace_items_lookup[OF Cons.prems]
    by (simp add: x fun_eq_iff map_add_def split: option.splits)
qed

text \<open>With at least one search and replace item, every value ends as its original with the
  last item applied, and nothing else.\<close>

lemma search_replace_last_rule:
  assumes "items \<noteq> []" and "distinct (map fst environment)"
  shows "map_of (search_replace_in_values items environment) k =
           map_option (last_rule_only items) (map_of environment k)"
proof -
  let ?e = "map (\<lambda>(k, v). (k, last_rule_only items v)) environment"
  have m: "map fst ?e = map fst environment" by (simp add: case_prod_beta comp_def)
  have "distinct (map fst ?e)" by (simp only: m assms(2))
  then have "map_of (rev ?e) = map_of ?e" by (rule map_of_rev_distinct)
  moreover have "map_of ?e k = map_option (last_rule_only items) (map_of environment k)"
    by (induction environment) auto
  ultimately show ?thesis
    using assms(1) by (simp add: search_replace_in_values_def replace_entries_lookup
        map_add_def split: option.splits)
qed

text \<open>
  Claim C3 says that every value ends as the original with all configured replacements
  applied. With the two items \<open>P:\<close> to \<open>/mnt/p\<close> and \<open>projects\<close> to \<open>prj\<close> the value
  \<open>P:/projects/demo\<close> ends as \<open>P:/prj/demo\<close>: the first item's replacement is overwritten,
  since the inner loop replaces in \<open>value\<close>, not in \<open>environment[key]\<close>. All replacements
  applied give \<open>/mnt/p/prj/demo\<close>.
\<close>

theorem search_replace_only_last_rule:
  "map_of (get_instance_job_envs example_world example_instance) ''AYON_WORKDIR''
     = Some ''P:/projects/demo''
   \<and> map_of (job_environment example_world
               (example_plugin\<lparr>env_search_replace_values := two_rules\<rparr>) example_instance)
         ''AYON_WORKDIR'' = Some ''P:/prj/demo''
   \<and> all_rules two_rules ''P:/projects/demo'' = ''/mnt/p/prj/demo''"
  by code_simp

section \<open>The payload\<close>

lemma environment_key_values_keys:
  "k \<in> fst ` set (environment_key_values n environment) \<Longrightarrow> prefix ''EnvironmentKeyValue'' k"
  by (induction n environment rule: environment_key_values.induct) auto

lemma not_environment_key:
  "\<not> prefix ''EnvironmentKeyValue'' k \<Longrightarrow>
   map_of (dict_update d (environment_key_values n environment)) k = map_of d k"
  using environment_key_values_keys[of k n environment] map_of_dict_update_other by metis

lemma link_dependency_linked:
  assumes "truthy (dict_get d ''_id'' PNone)" "map_of d ''Props'' = Some (PDict props)"
    "map_of props ''Batch'' = Some batch"
  shows "link_dependency d job =
           Inr (dict_update job [(''BatchName'', batch),
                                 (''JobDependency0'', dict_get d ''_id'' PNone)])"
  using assms by (simp add: link_dependency_def)

lemma link_dependency_unlinked:
  assumes "\<not> truthy (dict_get d ''_id'' PNone)"
  shows "link_dependency d job = Inr job"
  using assms by (simp add: link_dependency_def)

text \<open>
  The dictionary that \<open>payload_submit\<close> builds is linked to a response given as
  \<open>response_data\<close>: outside tests, when the render folder is in place and the host version is
  known, a response with an identifier (an \<open>_id\<close> that Python takes as true) and a batch under
  \<open>Props\<close> gives a dictionary whose \<open>BatchName\<close> is that batch and whose \<open>JobDependency0\<close> is
  that identifier; no response, or one without such an identifier, gives a dictionary without
  \<open>JobDependency0\<close> and with the basename of the current workfile as \<open>BatchName\<close>.
\<close>

lemma payload_dict_links_dependency:
  assumes "\<not> is_in_tests w"
    and "ensure_render_folder w (normpath (os_path w) (dirname (os_path w) render_path)) = None"
    and "self_ver self = Some ver"
  shows "(truthy (dict_get d ''_id'' PNone) \<and> map_of d ''Props'' = Some (PDict props)
            \<and> map_of props ''Batch'' = Some batch \<longrightarrow>
          (\<exists>p. payload_of w self inst script_path render_path exe_node_name start_frame end_frame
                  (Some d) baking_submission = Inr p
             \<and> map_of (JobInfo p) ''BatchName'' = Some batch
             \<and> map_of (JobInfo p) ''JobDependency0'' = Some (dict_get d ''_id'' PNone)))
       \<and> (response_data = None \<or> (\<exists>r. response_data = Some r \<and> \<not> truthy (dict_get r ''_id'' PNone)) \<longrightarrow>
          (\<exists>p. payload_of w self inst script_path render_path exe_node_name start_frame end_frame
                  response_data baking_submission = Inr p
             \<and> map_of (JobInfo p) ''JobDependency0'' = None
             \<and> map_of (JobInfo p) ''BatchName'' =
                 Some (PStr (basename (os_path w) (currentFile (ctx inst))))))"
proof (intro conjI impI)
  assume a: "truthy (dict_get d ''_id'' PNone) \<and> map_of d ''Props'' = Some (PDict props)
            \<and> map_of props ''Batch'' = Some batch"
  then have l: "link_dependency d job =
           Inr (dict_update job [(''BatchName'', batch),
                                 (''JobDependency0'', dict_get d ''_id'' PNone)])" for job
    using link_dependency_linked by blast
  show "\<exists>p. payload_of w self inst script_path render_path exe_node_name start_frame end_frame
                  (Some d) baking_submission = Inr p
             \<and> map_of (JobInfo p) ''BatchName'' = Some batch
             \<and> map_of (JobInfo p) ''JobDependency0'' = Some (dict_get d ''_id'' PNone)"
    using assms
    by (simp add: payload_of_def Let_def l not_environment_key) (simp add: map_of_dict_update)
next
  assume "response_data = None \<or> (\<exists>r. response_data = Some r \<and> \<not> truthy (dict_get r ''_id'' PNone))"
  then have l: "link_dependency (case response_data of None \<Rightarrow> [] | Some d \<Rightarrow> d) job = Inr job" for job
    by (auto simp: link_dependency_def dict_get_def)
  show "\<exists>p. payload_of w self inst script_path render_path exe_node_name start_frame end_frame
                  response_data baking_submission = Inr p
             \<and> map_of (JobInfo p) ''JobDependency0'' = None
             \<and> map_of (JobInfo p) ''BatchName'' =
                 Some (PStr (basename (os_path w) (currentFile (ctx inst))))"
    using assms
    by (simp add: payload_of_def Let_def l not_environment_key) (simp add: map_of_dict_update)
qed

text \<open>No call of \<open>payload_submit\<close> returns, and none changes \<open>instance.data\<close>.\<close>

lemma payload_submit_raises:
  "\<exists>e. payload_submit w self inst script_path render_path exe_node_name start_frame end_frame
          response_data baking_submission = (Inl e, inst)"
  by (simp add: payload_submit_def split: sum.splits)


lemma payload_of_oserror:
  assumes "makedirs w (normpath (os_path w) (dirname (os_path w) render_path)) = Some (OSError err)"
  shows "payload_of w self inst script_path render_path exe_node_name start_frame end_frame
           response_data baking_submission =
         payload_of (w\<lparr>makedirs := (\<lambda>dir. None)\<rparr>) self inst script_path render_path exe_node_name
           start_frame end_frame response_data baking_submission"
proof -
  have env: "job_environment (w\<lparr>makedirs := f\<rparr>) self inst = job_environment w self inst" for f
    by (simp add: job_environment_def collect_environment_def nuke_specific_env_def)
  show ?thesis
    using assms
    by (simp add: payload_of_def ensure_render_folder_def env Let_def
        cong: sum.case_cong option.case_cong if_cong)
qed

lemma payload_of_other_exception:
  assumes "makedirs w (normpath (os_path w) (dirname (os_path w) render_path)) = Some x"
    and "\<forall>err. x \<noteq> OSError err"
  shows "payload_of w self inst script_path render_path exe_node_name start_frame end_frame
           response_data baking_submission =
         Inl (if is_in_tests w then NameError ''datetime'' else x)"
  using assms
  by (cases x) (simp_all add: payload_of_def ensure_render_folder_def)

text \<open>
  Claim C2, amended. Every \<open>OSError\<close> of \<open>os.makedirs\<close>, whether the directory exists already
  or the failure is any other one of the operating system, is ignored: \<open>payload_submit\<close>
  goes on as if the directory had been created. An exception of \<open>os.makedirs\<close> that is not an
  \<open>OSError\<close> leaves \<open>payload_submit\<close> (in tests the call does not get to \<open>os.makedirs\<close>: it
  raises \<open>NameError\<close> at line 216).
\<close>

theorem makedirs_oserror_ignored:
  "(makedirs w (normpath (os_path w) (dirname (os_path w) render_path)) = Some (OSError err) \<longrightarrow>
      payload_submit w self inst script_path render_path exe_node_name start_frame end_frame
        response_data baking_submission =
      payload_submit (w\<lparr>makedirs := (\<lambda>dir. None)\<rparr>) self inst script_path render_path
        exe_node_name start_frame end_frame response_data baking_submission)
   \<and> (makedirs w (normpath (os_path w) (dirname (os_path w) render_path)) = Some x
        \<and> (\<forall>e. x \<noteq> OSError e) \<longrightarrow>
      fst (payload_submit w self inst script_path render_path exe_node_name start_frame end_frame
             response_data baking_submission) =
        Inl (if is_in_tests w then NameError ''datetime'' else x))"
proof (intro conjI impI)
  assume "makedirs w (normpath (os_path w) (dirname (os_path w) render_path)) = Some (OSError err)"
  from payload_of_oserror[OF this]
  show "payload_submit w self inst script_path render_path exe_node_name start_frame end_frame
        response_data baking_submission =
      payload_submit (w\<lparr>makedirs := (\<lambda>dir. None)\<rparr>) self inst script_path render_path
        exe_node_name start_frame end_frame response_data baking_submission"
    by (simp add: payload_submit_def)
next
  assume "makedirs w (normpath (os_path w) (dirname (os_path w) render_path)) = Some x
        \<and> (\<forall>e. x \<noteq> OSError e)"
  then show "fst (payload_submit w self inst script_path render_path exe_node_name start_frame end_frame
             response_data baking_submission) =
        Inl (if is_in_tests w then NameError ''datetime'' else x)"
    by (simp add: payload_submit_def payload_of_other_exception)
qed

theorem makedirs_oserror_ignored_witness:
  "makedirs denied_world ''/out'' = Some (OSError PermissionError)
   \<and> payload_submit denied_world example_plugin example_instance (PStr ''/work/sceneA.nk'')
       ''/out/render.####.exr'' ''Write1'' 1001 1005 None False =
     payload_submit example_world example_plugin example_instance (PStr ''/work/sceneA.nk'')
       ''/out/render.####.exr'' ''Write1'' 1001 1005 None False"
proof -
  have n: "normpath (os_path denied_world) (dirname (os_path denied_world) ''/out/render.####.exr'')
             = ''/out''"
    by code_simp
  have m: "makedirs denied_world ''/out'' = Some (OSError PermissionError)"
    by (simp add: denied_world_def)
  have e: "denied_world\<lparr>makedirs := (\<lambda>dir. None)\<rparr> = example_world"
    by (simp add: denied_world_def example_world_def)
  show ?thesis
    using makedirs_oserror_ignored[where w = denied_world and render_path = "''/out/render.####.exr''"
        and err = PermissionError and self = example_plugin and inst = example_instance
        and script_path = "PStr ''/work/sceneA.nk''" and exe_node_name = "''Write1''"
        and start_frame = 1001 and end_frame = 1005 and response_data = None
        and baking_submission = False]
    unfolding n e using m by simp
qed

text \<open>
  The claim C2 as stated fails when the creation is refused with \<open>PermissionError\<close>: the
  error does not propagate. The payload is built all the same, and what leaves the call is
  the \<open>NameError\<close> of line 359, as it does when the directory can be created.
\<close>

theorem permission_error_not_propagated:
  "makedirs denied_world
     (normpath (os_path denied_world) (dirname (os_path denied_world) ''/out/render.####.exr''))
     = Some (OSError PermissionError)
   \<and> job_info_entry
       (payload_of denied_world example_plugin example_instance (PStr ''/work/sceneA.nk'')
          ''/out/render.####.exr'' ''Write1'' 1001 1005 None False)
       ''Name'' = Some (PStr ''render.####.exr'')
   \<and> fst (payload_submit denied_world example_plugin example_instance (PStr ''/work/sceneA.nk'')
       ''/out/render.####.exr'' ''Write1'' 1001 1005 None False) = Inl (NameError ''json'')"
  by code_simp

section \<open>\<open>process\<close> and the expected files\<close>

text \<open>\<open>process\<close> leaves \<open>instance.data\<close> as it is, and for an instance that goes to the farm
  it ends with an exception.\<close>

lemma process_leaves_instance: "snd (process w self inst) = inst"
  by (simp add: process_def)

lemma process_raises: "farm inst \<Longrightarrow> fst (process w self inst) \<noteq> None"
  by (simp add: process_def)

text \<open>
  Claim C9 says that every call of \<open>payload_submit\<close> resolves the expected files of the main
  render and appends them, so that with N baking scripts they are appended N + 1 times. For
  the instance with one baking script, \<open>process\<close> raises \<open>NameError\<close> at
  \<open>getpass.getuser()\<close> before it calls \<open>payload_submit\<close>, and a call of \<open>payload_submit\<close> raises
  \<open>NameError\<close> at \<open>json.dumps\<close> before it calls \<open>_expected_files\<close>: the list of expected files
  stays absent, where one run of \<open>_expected_files\<close> on the instance's path and frames would
  have appended the two files of the frames 1001 and 1002.
\<close>

theorem expected_files_never_appended:
  "length (bakingNukeScripts baking_instance) = 1
   \<and> process example_world example_plugin baking_instance
       = (Some (NameError ''getpass''), baking_instance)
   \<and> payload_submit example_world example_plugin baking_instance (PStr ''/work/sceneA.nk'')
       ''/out/render.####.exr'' ''Write1'' 1001 1002 None False
       = (Inl (NameError ''json''), baking_instance)
   \<and> expectedFiles baking_instance = None
   \<and> expectedFiles (snd (expected_files posixpath baking_instance (path baking_instance)
                           (frameStartHandle baking_instance) (frameEndHandle baking_instance)))
       = Some [''/out/render.1001.exr'', ''/out/render.1002.exr'']"
  by code_simp

end
